theory Spec2Isabelle
  imports Main
begin

section \<open>Advertised discovery: \<^verbatim>\<open>fakts/grants/remote/discovery/advertised.py\<close>\<close>

text \<open>
  The module listens on a UDP port for beacons, removes repeated URLs and probes each
  advertised URL until one answers. It is written with asynchronous generators; the
  embedding below turns every generator into the run it makes on a finite sequence of
  stimuli, every exception into a value, and every effect (a log line, a close of the
  transport or of the socket, a call of the probe) into an event of the run.
\<close>

subsection \<open>Data model\<close>

text \<open>Python \<^verbatim>\<open>bytes\<close>: a list of 8-bit characters. Python \<^verbatim>\<open>str\<close> is \<^typ>\<open>string\<close>.\<close>

type_synonym bytes = "char list"

text \<open>\<^verbatim>\<open>class ListenBinding(BaseModel)\<close>, with the defaults of its three fields.\<close>

record ListenBinding =
  address :: string
  port :: int
  magic_phrase :: string

definition ListenBinding_default :: ListenBinding where
  "ListenBinding_default = \<lparr>address = '''', port = 45678, magic_phrase = ''beacon-fakts''\<rparr>"

text \<open>\<^verbatim>\<open>class Beacon(BaseModel)\<close>: one required field.\<close>

record Beacon =
  url :: string

text \<open>\<^verbatim>\<open>class FaktsEndpoint(BaseModel)\<close> of \<^verbatim>\<open>fakts/grants/remote/types.py\<close>.\<close>

record FaktsEndpoint =
  base_url :: string
  name :: string
  description :: "string option"
  retrieve_url :: "string option"
  claim_url :: "string option"
  version :: "string option"

text \<open>
  \<^verbatim>\<open>class FirstAdvertisedDiscovery(BaseModel)\<close>. The default of \<^verbatim>\<open>ssl_context\<close> comes from
  a factory (\<^verbatim>\<open>ssl.create_default_context\<close>), so the default configuration takes the context
  the factory made as its argument.
\<close>

record 'ssl FirstAdvertisedDiscovery =
  broadcast_port :: int
  magic_phrase :: string
  bind :: string
  strict :: bool
  discovered_endpoints :: "string \<rightharpoonup> FaktsEndpoint"
  ssl_context :: 'ssl
  allow_appending_slash :: bool
  auto_protocols :: "string list"
  timeout :: int

definition FirstAdvertisedDiscovery_default :: "'ssl \<Rightarrow> 'ssl FirstAdvertisedDiscovery" where
  "FirstAdvertisedDiscovery_default ctx =
     \<lparr>broadcast_port = 45678, magic_phrase = ''beacon-fakts'', bind = '''', strict = False,
      discovered_endpoints = Map.empty, ssl_context = ctx, allow_appending_slash = True,
      auto_protocols = [], timeout = 3\<rparr>"

text \<open>
  The exceptions that the module raises, catches or lets through; each value stands for
  an exception of exactly that class. The classes that the handlers of \<^verbatim>\<open>alisten\<close> name
  (\<^verbatim>\<open>json.JSONDecodeError\<close>, \<^verbatim>\<open>UnicodeEncodeError\<close>, \<^verbatim>\<open>asyncio.CancelledError\<close>) have no
  subclass among them, so a clause \<^verbatim>\<open>except C\<close> of the listener catches exactly the value
  \<open>C\<close>. \<^verbatim>\<open>RecursionError\<close> and \<^verbatim>\<open>ValueError\<close> are what \<^verbatim>\<open>json.loads\<close> raises, besides
  \<^verbatim>\<open>JSONDecodeError\<close>, on a text nested deeper than the recursion limit and on an integer
  literal longer than the digit limit.
\<close>

datatype exn =
  OSError
  | OverflowError
  | UnboundLocalError
  | UnicodeDecodeError
  | UnicodeEncodeError
  | JSONDecodeError
  | RecursionError
  | ValueError
  | TypeError
  | ValidationError
  | CancelledError
  | DiscoveryError string

text \<open>
  What \<^verbatim>\<open>json.loads\<close> returns. The numbers are kept abstract (\<^typ>\<open>'n\<close>); a \<open>JDict\<close>
  lists the items of a Python dict, whose keys are distinct.
\<close>

datatype 'n json =
  JNull
  | JBool bool
  | JNum 'n
  | JStr string
  | JList "'n json list"
  | JDict "(string \<times> 'n json) list"

text \<open>
  The library functions the listener calls, taken as parameters:
  \<^item> \<open>str_utf8 d\<close> is \<^verbatim>\<open>str(d, "utf8")\<close>, \<open>None\<close> when it raises \<^verbatim>\<open>UnicodeDecodeError\<close>;
  \<^item> \<open>json_loads s\<close> is \<^verbatim>\<open>json.loads(s)\<close>: \<open>Inr\<close> the value it returns, \<open>Inl\<close> the
    exception it raises (\<^verbatim>\<open>json.JSONDecodeError\<close>, or another one);
  \<^item> \<open>str_num n\<close> is \<^verbatim>\<open>str(n)\<close> on a number.
\<close>

record 'n pylib =
  str_utf8 :: "bytes \<Rightarrow> string option"
  json_loads :: "string \<Rightarrow> exn + 'n json"
  str_num :: "'n \<Rightarrow> string"

subsection \<open>Events and generator runs\<close>

text \<open>The effects of the listener: closes of the transport and of the socket, log lines.\<close>

datatype event =
  TransportClose
  | SocketClose
  | LogError string
  | LogInfo string

text \<open>
  The run of an asynchronous generator, as its consumer sees it: it yields an item and
  goes on when asked for the next one, performs an effect, raises, ends
  (\<^verbatim>\<open>StopAsyncIteration\<close>), or stays suspended in an \<^verbatim>\<open>await\<close> that nothing completes.
\<close>

datatype 'a agen =
  Yield 'a "'a agen"
  | Effect event "'a agen"
  | Raise exn
  | Stop
  | Await

datatype finish = Raises exn | Stops | Awaits

fun yields :: "'a agen \<Rightarrow> 'a list" where
  "yields (Yield x g) = x # yields g"
| "yields (Effect e g) = yields g"
| "yields (Raise e) = []"
| "yields Stop = []"
| "yields Await = []"

fun effects :: "'a agen \<Rightarrow> event list" where
  "effects (Yield x g) = effects g"
| "effects (Effect e g) = e # effects g"
| "effects (Raise e) = []"
| "effects Stop = []"
| "effects Await = []"

fun ending :: "'a agen \<Rightarrow> finish" where
  "ending (Yield x g) = ending g"
| "ending (Effect e g) = ending g"
| "ending (Raise e) = Raises e"
| "ending Stop = Stops"
| "ending Await = Awaits"

text \<open>\<open>resume g k\<close>: the run \<open>g\<close>, continued by \<open>k\<close> where \<open>g\<close> stays suspended.\<close>

fun resume :: "'a agen \<Rightarrow> 'a agen \<Rightarrow> 'a agen" where
  "resume (Yield x g) k = Yield x (resume g k)"
| "resume (Effect e g) k = Effect e (resume g k)"
| "resume (Raise e) k = Raise e"
| "resume Stop k = Stop"
| "resume Await k = k"

text \<open>A block of statements that only perform effects, before the run goes on.\<close>

definition perform :: "event list \<Rightarrow> 'a agen \<Rightarrow> 'a agen" where
  "perform es g = foldr Effect es g"

subsection \<open>\<^verbatim>\<open>alisten\<close>\<close>

text \<open>\<^verbatim>\<open>data.startswith(prefix)\<close>.\<close>

definition startswith :: "string \<Rightarrow> string \<Rightarrow> bool" where
  "startswith s p = (take (length p) s = p)"

text \<open>
  The validator of a \<^verbatim>\<open>str\<close> field (pydantic 1): a string is kept, a number or a bool
  (a subclass of \<^verbatim>\<open>int\<close>) becomes its \<^verbatim>\<open>str()\<close>, anything else is refused.
\<close>

fun str_validator :: "('n \<Rightarrow> string) \<Rightarrow> 'n json \<Rightarrow> string option" where
  "str_validator sn (JStr s) = Some s"
| "str_validator sn (JNum n) = Some (sn n)"
| "str_validator sn (JBool b) = Some (if b then ''True'' else ''False'')"
| "str_validator sn JNull = None"
| "str_validator sn (JList xs) = None"
| "str_validator sn (JDict kvs) = None"

text \<open>
  \<^verbatim>\<open>Beacon(**endpoint)\<close>: the \<^verbatim>\<open>**\<close> of a value that is not a mapping raises
  \<^verbatim>\<open>TypeError\<close>; a mapping without the required \<^verbatim>\<open>url\<close>, or with a \<^verbatim>\<open>url\<close> that the
  validator refuses, raises pydantic's \<^verbatim>\<open>ValidationError\<close>; other keys are ignored. One
  key is not: the first parameter of pydantic 1's \<^verbatim>\<open>BaseModel.__init__\<close> is named
  \<^verbatim>\<open>__pydantic_self__\<close>, so a mapping with that key makes the call itself raise
  \<^verbatim>\<open>TypeError\<close> (two values for one argument), before any validation.
\<close>

fun Beacon_init :: "('n \<Rightarrow> string) \<Rightarrow> 'n json \<Rightarrow> exn + Beacon" where
  "Beacon_init sn (JDict kvs) =
     (case map_of kvs ''__pydantic_self__'' of
        Some v \<Rightarrow> Inl TypeError
      | None \<Rightarrow>
          (case map_of kvs ''url'' of
             None \<Rightarrow> Inl ValidationError
           | Some v \<Rightarrow>
               (case str_validator sn v of
                  None \<Rightarrow> Inl ValidationError
                | Some s \<Rightarrow> Inr \<lparr>url = s\<rparr>)))"
| "Beacon_init sn JNull = Inl TypeError"
| "Beacon_init sn (JBool b) = Inl TypeError"
| "Beacon_init sn (JNum n) = Inl TypeError"
| "Beacon_init sn (JStr s) = Inl TypeError"
| "Beacon_init sn (JList xs) = Inl TypeError"

text \<open>
  Lines 110-111, the body of the inner \<^verbatim>\<open>try\<close> up to the \<^verbatim>\<open>yield\<close>:
  \<^verbatim>\<open>endpoint = json.loads(endpoint); endpoint = Beacon(**endpoint)\<close>. Whatever
  \<^verbatim>\<open>json.loads\<close> raises leaves the two statements.
\<close>

definition decode_beacon :: "'n pylib \<Rightarrow> string \<Rightarrow> exn + Beacon" where
  "decode_beacon L endpoint =
     (case json_loads L endpoint of
        Inl e \<Rightarrow> Inl e
      | Inr j \<Rightarrow> Beacon_init (str_num L) j)"

text \<open>
  Lines 109-117, the inner \<^verbatim>\<open>try\<close> with its clause \<^verbatim>\<open>except json.JSONDecodeError\<close>. The
  result is the log lines written, and then an exception that leaves the block, a beacon
  to yield, or nothing.
\<close>

definition inner_try :: "'n pylib \<Rightarrow> bool \<Rightarrow> string \<Rightarrow> event list \<times> (exn + Beacon option)" where
  "inner_try L strict' endpoint =
     (case decode_beacon L endpoint of
        Inr b \<Rightarrow> ([], Inr (Some b))
      | Inl e \<Rightarrow>
          (if e = JSONDecodeError
           then ([LogError ''Received Request but it was not valid json''],
                 if strict' then Inl e else Inr None)
           else ([], Inl e)))"

text \<open>Lines 105-122, the body of the outer \<^verbatim>\<open>try\<close> of one turn of the loop.\<close>

definition frame :: "'n pylib \<Rightarrow> ListenBinding \<Rightarrow> bool \<Rightarrow> bytes \<Rightarrow> event list \<times> (exn + Beacon option)" where
  "frame L binding strict' d =
     (case str_utf8 L d of
        None \<Rightarrow> ([], Inl UnicodeDecodeError)
      | Some data \<Rightarrow>
          (if startswith data (ListenBinding.magic_phrase binding)
           then inner_try L strict' (drop (length (ListenBinding.magic_phrase binding)) data)
           else ([LogError (''Received Non Magic Response '' @ data @ ''. Maybe somebody sends'')],
                 Inr None)))"

text \<open>
  Lines 104-127, one turn of the loop on a received datagram: the body above with the
  clause \<^verbatim>\<open>except UnicodeEncodeError\<close>.
\<close>

definition on_datagram :: "'n pylib \<Rightarrow> ListenBinding \<Rightarrow> bool \<Rightarrow> bytes \<Rightarrow> event list \<times> (exn + Beacon option)" where
  "on_datagram L binding strict' d =
     (case frame L binding strict' d of
        (logs, Inr r) \<Rightarrow> (logs, Inr r)
      | (logs, Inl e) \<Rightarrow>
          (if e = UnicodeEncodeError
           then (logs @ [LogError ''Couldn't decode received message''],
                 if strict' then Inl e else Inr None)
           else (logs, Inl e)))"

text \<open>
  Lines 134-137, the \<^verbatim>\<open>finally\<close> clause, entered with the exception \<open>e\<close> in flight. The
  flag says whether \<^verbatim>\<open>transport\<close> has been assigned: where it has not,
  \<^verbatim>\<open>transport.close()\<close> raises \<^verbatim>\<open>UnboundLocalError\<close> and nothing after it runs.
\<close>

definition finally_clause :: "bool \<Rightarrow> exn \<Rightarrow> 'a agen" where
  "finally_clause bound e =
     (if bound
      then perform [TransportClose, SocketClose, LogInfo ''Stopped checking''] (Raise e)
      else Raise UnboundLocalError)"

text \<open>
  Lines 129-137: an exception \<open>e\<close> leaves the body of the outermost \<^verbatim>\<open>try\<close>. The clause
  \<^verbatim>\<open>except asyncio.CancelledError\<close> closes, logs and raises \<open>e\<close> again; the \<^verbatim>\<open>finally\<close>
  clause runs in every case.
\<close>

definition leave_try :: "bool \<Rightarrow> exn \<Rightarrow> 'a agen" where
  "leave_try bound e =
     (if e = CancelledError
      then (if bound
            then perform [TransportClose, SocketClose, LogInfo ''Stopped checking'']
                   (finally_clause bound e)
            else finally_clause bound UnboundLocalError)
      else finally_clause bound e)"

text \<open>
  What \<^verbatim>\<open>await read_queue.get()\<close> delivers: a datagram that \<^verbatim>\<open>datagram_received\<close> has put
  into the queue (its sender's address is never read), or the cancellation of the task,
  raised as \<^verbatim>\<open>CancelledError\<close> at the \<^verbatim>\<open>await\<close>.
\<close>

datatype stimulus = Datagram bytes | Cancel

text \<open>
  Lines 102-127, the \<^verbatim>\<open>while True\<close> loop, run on the stimuli that arrive. With none left
  the generator stays suspended in \<^verbatim>\<open>read_queue.get()\<close>. The consumer is taken to ask for
  the next beacon after each \<^verbatim>\<open>yield\<close>.
\<close>

fun alisten_loop :: "'n pylib \<Rightarrow> ListenBinding \<Rightarrow> bool \<Rightarrow> stimulus list \<Rightarrow> Beacon agen" where
  "alisten_loop L binding strict' [] = Await"
| "alisten_loop L binding strict' (Cancel # rest) = leave_try True CancelledError"
| "alisten_loop L binding strict' (Datagram d # rest) =
     (case on_datagram L binding strict' d of
        (logs, Inl e) \<Rightarrow> perform logs (leave_try True e)
      | (logs, Inr (Some b)) \<Rightarrow> perform logs (Yield b (alisten_loop L binding strict' rest))
      | (logs, Inr None) \<Rightarrow> perform logs (alisten_loop L binding strict' rest))"

text \<open>
  How the start of the generator goes: \<^verbatim>\<open>s.bind\<close> raises (\<^verbatim>\<open>OSError\<close> for an address
  in use, \<^verbatim>\<open>OverflowError\<close> for a port out of range) before the \<^verbatim>\<open>try\<close>, so nothing is
  closed, or \<^verbatim>\<open>await loop.create_datagram_endpoint(...)\<close> raises (cancellation included)
  before \<^verbatim>\<open>transport\<close> is assigned, or both succeed.
\<close>

datatype startup = BindFails exn | EndpointFails exn | Started

definition alisten :: "'n pylib \<Rightarrow> ListenBinding \<Rightarrow> bool \<Rightarrow> startup \<Rightarrow> stimulus list \<Rightarrow> Beacon agen" where
  "alisten L binding strict' st ds =
     (case st of
        BindFails e \<Rightarrow> Raise e
      | EndpointFails e \<Rightarrow> leave_try False e
      | Started \<Rightarrow> alisten_loop L binding strict' ds)"

subsection \<open>\<^verbatim>\<open>alisten_pure\<close>\<close>

text \<open>
  Lines 171-176, the \<^verbatim>\<open>async for\<close> over the listener with the set \<^verbatim>\<open>already_detected\<close>.
  An exception of the listener passes through; when the listener ends, so does this
  generator.
\<close>

fun alisten_pure_loop :: "string set \<Rightarrow> Beacon agen \<Rightarrow> Beacon agen" where
  "alisten_pure_loop already_detected (Yield x g) =
     (if url x \<notin> already_detected
      then Yield x (alisten_pure_loop (insert (url x) already_detected) g)
      else alisten_pure_loop already_detected g)"
| "alisten_pure_loop already_detected (Effect e g) = Effect e (alisten_pure_loop already_detected g)"
| "alisten_pure_loop already_detected (Raise e) = Raise e"
| "alisten_pure_loop already_detected Stop = Stop"
| "alisten_pure_loop already_detected Await = Await"

text \<open>Line 169: each call starts from \<^verbatim>\<open>already_detected = set()\<close>.\<close>

definition alisten_pure_over :: "Beacon agen \<Rightarrow> Beacon agen" where
  "alisten_pure_over g = alisten_pure_loop {} g"

definition alisten_pure :: "'n pylib \<Rightarrow> ListenBinding \<Rightarrow> bool \<Rightarrow> startup \<Rightarrow> stimulus list \<Rightarrow> Beacon agen" where
  "alisten_pure L binding strict' st ds = alisten_pure_over (alisten L binding strict' st ds)"

subsection \<open>\<^verbatim>\<open>FirstAdvertisedDiscovery.adiscover\<close>\<close>

text \<open>
  \<^verbatim>\<open>discover_url\<close> (\<^verbatim>\<open>.utils\<close>) is a parameter. A call returns an endpoint, raises an
  \<^verbatim>\<open>Exception\<close> (of which the log line prints the text), or raises \<^verbatim>\<open>CancelledError\<close>,
  which is a \<^verbatim>\<open>BaseException\<close> that \<^verbatim>\<open>except Exception\<close> does not catch.
\<close>

datatype probe_result =
  is_Resolved: Resolved (endpoint: FaktsEndpoint)
  | is_Refused: Refused (reason: string)
  | Interrupted

text \<open>What \<^verbatim>\<open>adiscover\<close> does, in order: an effect of the listener it drives, a call of
  \<^verbatim>\<open>discover_url\<close>, a line of its own \<^verbatim>\<open>logger.error\<close>.\<close>

datatype action = Listener event | DiscoverUrl string | LogFailure string

datatype 'a outcome = Returned 'a | Raised exn | Pending

definition own :: "action list \<Rightarrow> action list" where
  "own tr = filter (\<lambda>a. case a of Listener e \<Rightarrow> False | DiscoverUrl u \<Rightarrow> True | LogFailure m \<Rightarrow> True) tr"

text \<open>
  Lines 235-243, the \<^verbatim>\<open>async for\<close> with its body and the \<^verbatim>\<open>raise\<close> after it. The
  \<^verbatim>\<open>try\<close> encloses the probe only: an exception of the beacon sequence leaves
  \<^verbatim>\<open>adiscover\<close> as it is. \<open>Pending\<close>: the call never returns, the listener being
  suspended for ever.
\<close>

fun adiscover_loop :: "(string \<Rightarrow> probe_result) \<Rightarrow> Beacon agen \<Rightarrow> action list \<times> FaktsEndpoint outcome" where
  "adiscover_loop probe (Yield beacon g) =
     (case probe (url beacon) of
        Resolved ep \<Rightarrow> ([DiscoverUrl (url beacon)], Returned ep)
      | Refused e \<Rightarrow>
          (case adiscover_loop probe g of
             (tr, r) \<Rightarrow>
               (DiscoverUrl (url beacon)
                  # LogFailure (''Could not connect to beacon '' @ url beacon @ '': '' @ e)
                  # tr, r))
      | Interrupted \<Rightarrow> ([DiscoverUrl (url beacon)], Raised CancelledError))"
| "adiscover_loop probe (Effect e g) =
     (case adiscover_loop probe g of (tr, r) \<Rightarrow> (Listener e # tr, r))"
| "adiscover_loop probe (Raise e) = ([], Raised e)"
| "adiscover_loop probe Stop = ([], Raised (DiscoveryError ''Could not find any endpoint''))"
| "adiscover_loop probe Await = ([], Pending)"

text \<open>Lines 230-234: the binding that \<^verbatim>\<open>adiscover\<close> builds from the configuration.\<close>

definition adiscover_binding :: "'ssl FirstAdvertisedDiscovery \<Rightarrow> ListenBinding" where
  "adiscover_binding self =
     \<lparr>address = bind self, port = broadcast_port self, magic_phrase = magic_phrase self\<rparr>"

definition adiscover ::
  "'n pylib \<Rightarrow> (string \<Rightarrow> 'ssl \<Rightarrow> probe_result) \<Rightarrow> 'ssl FirstAdvertisedDiscovery \<Rightarrow> 'r
     \<Rightarrow> startup \<Rightarrow> stimulus list \<Rightarrow> action list \<times> FaktsEndpoint outcome" where
  "adiscover L discover_url self request st ds =
     adiscover_loop (\<lambda>u. discover_url u (ssl_context self))
       (alisten_pure L (adiscover_binding self) (strict self) st ds)"

subsection \<open>Concrete collaborators for the examples\<close>

text \<open>
  The examples run the model on concrete datagrams, so they need a concrete decoder and a
  concrete JSON reader. \<open>ascii_text\<close> agrees with \<^verbatim>\<open>str(d, "utf8")\<close> on every \<open>d\<close> whose
  bytes are all below 128 (the text has the same characters) and on every \<open>d\<close> that
  holds the byte \<open>0xFF\<close>, which no UTF-8 sequence contains. \<open>loads_fragment\<close> agrees with
  \<^verbatim>\<open>json.loads\<close> on the texts \<^verbatim>\<open>{}\<close>, \<^verbatim>\<open>[]\<close> and \<^verbatim>\<open>{"url": "..."}\<close> (printable ASCII without
  quote or backslash between the quotes), on \<^verbatim>\<open>{oops\<close>, which is not JSON and raises
  \<^verbatim>\<open>JSONDecodeError\<close>, and on the text of 1200 opening brackets, which is not JSON either
  and raises \<^verbatim>\<open>RecursionError\<close> under the interpreter's default recursion limit of 1000.
  The examples use them on such inputs only.
\<close>

definition ascii_text :: "bytes \<Rightarrow> string option" where
  "ascii_text d = (if list_all (\<lambda>c. (of_char c :: nat) < 128) d then Some d else None)"

definition plain :: "char \<Rightarrow> bool" where
  \<open>plain c =
     (32 \<le> (of_char c :: nat) \<and> (of_char c :: nat) < 127 \<and> c \<noteq> CHR 0x22 \<and> c \<noteq> CHR 0x5C)\<close>

definition loads_fragment :: "string \<Rightarrow> exn + string json" where
  \<open>loads_fragment s =
     (if s = ''{}'' then Inr (JDict [])
      else if s = ''[]'' then Inr (JList [])
      else if 11 \<le> length s \<and> take 9 s = ''{"url": "'' \<and> drop (length s - 2) s = ''"}''
              \<and> list_all plain (take (length s - 11) (drop 9 s))
      then Inr (JDict [(''url'', JStr (take (length s - 11) (drop 9 s)))])
      else if s = replicate 1200 CHR ''[''
      then Inl RecursionError
      else Inl JSONDecodeError)\<close>

definition example_lib :: "string pylib" where
  "example_lib = \<lparr>str_utf8 = ascii_text, json_loads = loads_fragment, str_num = (\<lambda>n. n)\<rparr>"

definition example_endpoint :: FaktsEndpoint where
  "example_endpoint =
     \<lparr>base_url = ''http://u2/f/'', name = ''Helper'', description = None,
      retrieve_url = None, claim_url = None, version = None\<rparr>"

text \<open>A probe that reaches \<^verbatim>\<open>u2\<close> only, and one that reaches nothing.\<close>

definition example_probe :: "string \<Rightarrow> unit \<Rightarrow> probe_result" where
  "example_probe u ctx = (if u = ''u2'' then Resolved example_endpoint else Refused ''timed out'')"

definition refusing_probe :: "string \<Rightarrow> unit \<Rightarrow> probe_result" where
  "refusing_probe u ctx = Refused ''timed out''"

section \<open>Properties\<close>

subsection \<open>Runs: effects, continuation, the clauses of the outer \<^verbatim>\<open>try\<close>\<close>

lemma resume_perform: "resume (perform es g) k = perform es (resume g k)"
  by (induction es) (simp_all add: perform_def)

lemma ending_perform: "ending (perform es g) = ending g"
  by (induction es) (simp_all add: perform_def)

lemma resume_finally_clause: "resume (finally_clause bound e) k = finally_clause bound e"
  by (simp add: finally_clause_def resume_perform)

lemma resume_leave_try: "resume (leave_try bound e) k = leave_try bound e"
  by (simp add: leave_try_def resume_perform resume_finally_clause)

text \<open>An exception other than the cancellation meets the \<^verbatim>\<open>finally\<close> clause only.\<close>

lemma leave_try_error:
  "e \<noteq> CancelledError \<Longrightarrow>
   leave_try True e = perform [TransportClose, SocketClose, LogInfo ''Stopped checking''] (Raise e)"
  by (simp add: leave_try_def finally_clause_def)

text \<open>The cancellation meets its \<^verbatim>\<open>except\<close> clause and then the \<^verbatim>\<open>finally\<close> clause.\<close>

lemma leave_try_cancelled:
  "leave_try True CancelledError =
     perform [TransportClose, SocketClose, LogInfo ''Stopped checking'',
              TransportClose, SocketClose, LogInfo ''Stopped checking''] (Raise CancelledError)"
  by (simp add: leave_try_def finally_clause_def perform_def)

text \<open>Before \<^verbatim>\<open>transport\<close> is assigned, no clause closes anything.\<close>

lemma leave_try_unbound: "leave_try False e = Raise UnboundLocalError"
  by (simp add: leave_try_def finally_clause_def)

text \<open>
  The loop keeps no state between two datagrams: its run on a sequence of stimuli is its
  run on the first part, continued (where it is still listening) by its run on the rest.
\<close>

lemma alisten_loop_append:
  "alisten_loop L binding strict' (xs @ ys) =
     resume (alisten_loop L binding strict' xs) (alisten_loop L binding strict' ys)"
proof (induction xs)
  case Nil
  show ?case by simp
next
  case (Cons x xs)
  show ?case
  proof (cases x)
    case Cancel
    then show ?thesis by (simp add: resume_leave_try)
  next
    case (Datagram d)
    obtain logs r where od: "on_datagram L binding strict' d = (logs, r)"
      by (cases "on_datagram L binding strict' d")
    show ?thesis
    proof (cases r)
      case (Inl e)
      with od Datagram show ?thesis by (simp add: resume_perform resume_leave_try)
    next
      case (Inr ob)
      with od Datagram Cons.IH show ?thesis
        by (cases ob) (simp_all add: resume_perform)
    qed
  qed
qed

lemma alisten_Started_append:
  "alisten L binding strict' Started (pre @ x # rest) =
     resume (alisten L binding strict' Started pre) (alisten_loop L binding strict' (x # rest))"
  by (simp add: alisten_def alisten_loop_append)

subsection \<open>One turn of the loop, by the kind of datagram\<close>

lemma on_datagram_bad_json:
  assumes "str_utf8 L d = Some data"
      and "startswith data (ListenBinding.magic_phrase binding)"
      and "json_loads L (drop (length (ListenBinding.magic_phrase binding)) data)
             = Inl JSONDecodeError"
  shows "on_datagram L binding strict' d =
           ([LogError ''Received Request but it was not valid json''],
            if strict' then Inl JSONDecodeError else Inr None)"
  using assms by (simp add: on_datagram_def frame_def inner_try_def decode_beacon_def)

lemma on_datagram_loads_error:
  assumes "str_utf8 L d = Some data"
      and "startswith data (ListenBinding.magic_phrase binding)"
      and "json_loads L (drop (length (ListenBinding.magic_phrase binding)) data) = Inl e"
      and "e \<noteq> JSONDecodeError"
      and "e \<noteq> UnicodeEncodeError"
  shows "on_datagram L binding strict' d = ([], Inl e)"
  using assms by (simp add: on_datagram_def frame_def inner_try_def decode_beacon_def)

lemma on_datagram_non_magic:
  assumes "str_utf8 L d = Some data"
      and "\<not> startswith data (ListenBinding.magic_phrase binding)"
  shows "on_datagram L binding strict' d =
           ([LogError (''Received Non Magic Response '' @ data @ ''. Maybe somebody sends'')],
            Inr None)"
  using assms by (simp add: on_datagram_def frame_def)

lemma on_datagram_undecodable:
  assumes "str_utf8 L d = None"
  shows "on_datagram L binding strict' d = ([], Inl UnicodeDecodeError)"
  using assms by (simp add: on_datagram_def frame_def)

lemma Beacon_init_error:
  "Beacon_init sn j = Inl e \<Longrightarrow> e = TypeError \<or> e = ValidationError"
  by (cases j) (auto split: option.splits)

lemma on_datagram_bad_shape:
  assumes "str_utf8 L d = Some data"
      and "startswith data (ListenBinding.magic_phrase binding)"
      and "json_loads L (drop (length (ListenBinding.magic_phrase binding)) data) = Inr j"
      and "Beacon_init (str_num L) j = Inl e"
  shows "on_datagram L binding strict' d = ([], Inl e)"
  using assms Beacon_init_error [OF assms(4)]
  by (auto simp add: on_datagram_def frame_def inner_try_def decode_beacon_def)

subsection \<open>The listener\<close>

text \<open>
  A datagram that starts with the magic phrase and on whose remainder \<^verbatim>\<open>json.loads\<close>
  raises \<^verbatim>\<open>JSONDecodeError\<close>: without \<open>strict\<close> the listener logs "Received Request but
  it was not valid json", skips the datagram and goes on with the datagrams that follow,
  as a listener that starts on them does; with \<open>strict\<close> it logs, runs its \<^verbatim>\<open>finally\<close>
  clause and raises the \<^verbatim>\<open>JSONDecodeError\<close>, which ends the beacon sequence. This holds
  wherever the datagram stands in the sequence of stimuli.
\<close>

lemma alisten_json_decode_error:
  assumes "str_utf8 L d = Some data"
      and "startswith data (ListenBinding.magic_phrase binding)"
      and "json_loads L (drop (length (ListenBinding.magic_phrase binding)) data)
             = Inl JSONDecodeError"
  shows "alisten L binding False Started (pre @ Datagram d # rest) =
           resume (alisten L binding False Started pre)
             (Effect (LogError ''Received Request but it was not valid json'')
                (alisten L binding False Started rest))
       \<and> alisten L binding True Started (pre @ Datagram d # rest) =
           resume (alisten L binding True Started pre)
             (perform [LogError ''Received Request but it was not valid json'',
                       TransportClose, SocketClose, LogInfo ''Stopped checking'']
                (Raise JSONDecodeError))"
proof -
  have lenient: "alisten_loop L binding False (Datagram d # rest) =
      Effect (LogError ''Received Request but it was not valid json'')
        (alisten_loop L binding False rest)"
    using on_datagram_bad_json [OF assms, of False] by (simp add: perform_def)
  have strict: "alisten_loop L binding True (Datagram d # rest) =
      perform [LogError ''Received Request but it was not valid json'',
               TransportClose, SocketClose, LogInfo ''Stopped checking'']
        (Raise JSONDecodeError)"
    using on_datagram_bad_json [OF assms, of True]
    by (simp add: leave_try_error) (simp add: perform_def)
  show ?thesis
    by (simp only: alisten_Started_append lenient strict) (simp add: alisten_def)
qed

text \<open>
  The datagrams \<^verbatim>\<open>beacon-fakts{"url": "u1"}\<close>, \<^verbatim>\<open>beacon-fakts{oops\<close>,
  \<^verbatim>\<open>beacon-fakts{"url": "u2"}\<close>: the lenient listener yields \<^verbatim>\<open>u1\<close>, logs, yields \<^verbatim>\<open>u2\<close>
  and waits; the strict one yields \<^verbatim>\<open>u1\<close>, logs, closes and raises.
\<close>

lemma alisten_json_decode_error_example:
  \<open>str_utf8 example_lib ''beacon-fakts{oops'' = Some ''beacon-fakts{oops''
   \<and> startswith ''beacon-fakts{oops'' (ListenBinding.magic_phrase ListenBinding_default)
   \<and> json_loads example_lib ''{oops'' = Inl JSONDecodeError
   \<and> alisten example_lib ListenBinding_default False Started
        [Datagram ''beacon-fakts{"url": "u1"}'', Datagram ''beacon-fakts{oops'',
         Datagram ''beacon-fakts{"url": "u2"}''] =
       Yield \<lparr>url = ''u1''\<rparr>
         (Effect (LogError ''Received Request but it was not valid json'')
            (Yield \<lparr>url = ''u2''\<rparr> Await))
   \<and> alisten example_lib ListenBinding_default True Started
        [Datagram ''beacon-fakts{"url": "u1"}'', Datagram ''beacon-fakts{oops'',
         Datagram ''beacon-fakts{"url": "u2"}''] =
       Yield \<lparr>url = ''u1''\<rparr>
         (Effect (LogError ''Received Request but it was not valid json'')
            (Effect TransportClose (Effect SocketClose
               (Effect (LogInfo ''Stopped checking'') (Raise JSONDecodeError)))))\<close>
proof -
  have h1: "str_utf8 example_lib ''beacon-fakts{oops'' = Some ''beacon-fakts{oops''"
    by code_simp
  have h2: "startswith ''beacon-fakts{oops'' (ListenBinding.magic_phrase ListenBinding_default)"
    by code_simp
  have h3: "json_loads example_lib
      (drop (length (ListenBinding.magic_phrase ListenBinding_default)) ''beacon-fakts{oops'')
      = Inl JSONDecodeError"
    by code_simp
  have h3': "json_loads example_lib ''{oops'' = Inl JSONDecodeError"
    by code_simp
  have pre: \<open>alisten example_lib ListenBinding_default strict' Started
      [Datagram ''beacon-fakts{"url": "u1"}''] = Yield \<lparr>url = ''u1''\<rparr> Await\<close> for strict'
    by (cases strict'; code_simp)
  have rest: \<open>alisten example_lib ListenBinding_default False Started
      [Datagram ''beacon-fakts{"url": "u2"}''] = Yield \<lparr>url = ''u2''\<rparr> Await\<close>
    by code_simp
  show ?thesis
    using alisten_json_decode_error [OF h1 h2 h3,
        of \<open>[Datagram ''beacon-fakts{"url": "u1"}'']\<close> \<open>[Datagram ''beacon-fakts{"url": "u2"}'']\<close>]
    by (simp add: h1 h2 h3' pre rest perform_def)
qed

text \<open>
  C3. A datagram that starts with the magic phrase and on whose remainder \<^verbatim>\<open>json.loads\<close>
  raises an exception that is not a \<^verbatim>\<open>JSONDecodeError\<close> (\<^verbatim>\<open>RecursionError\<close> for a text
  nested deeper than the recursion limit, \<^verbatim>\<open>ValueError\<close> for an integer literal over the
  digit limit): such a remainder is not parseable JSON either, but the inner \<^verbatim>\<open>try\<close>
  catches \<^verbatim>\<open>json.JSONDecodeError\<close> only. With \<open>strict\<close> and without, the listener writes
  no log line, runs its \<^verbatim>\<open>finally\<close> clause and raises that exception, and the datagrams
  that follow are never read. Without \<open>strict\<close> this is not the log-and-skip that the
  claim describes for every remainder that is not parseable JSON.
\<close>

theorem alisten_json_loads_error:
  assumes "str_utf8 L d = Some data"
      and "startswith data (ListenBinding.magic_phrase binding)"
      and "json_loads L (drop (length (ListenBinding.magic_phrase binding)) data) = Inl e"
      and "e \<noteq> JSONDecodeError"
      and "e \<noteq> UnicodeEncodeError"
      and "e \<noteq> CancelledError"
  shows "alisten L binding strict' Started (pre @ Datagram d # rest) =
           resume (alisten L binding strict' Started pre)
             (perform [TransportClose, SocketClose, LogInfo ''Stopped checking''] (Raise e))"
proof -
  have "alisten_loop L binding strict' (Datagram d # rest) =
      perform [TransportClose, SocketClose, LogInfo ''Stopped checking''] (Raise e)"
    using on_datagram_loads_error [OF assms(1-5), of strict'] assms(6)
    by (simp add: leave_try_error) (simp add: perform_def)
  then show ?thesis
    by (simp only: alisten_Started_append)
qed

text \<open>
  Without \<open>strict\<close>: the datagram made of the magic phrase and 1200 opening brackets ends
  the listener with \<^verbatim>\<open>RecursionError\<close>; the beacon that follows is never yielded.
\<close>

theorem alisten_json_loads_error_witness:
  \<open>str_utf8 example_lib (''beacon-fakts'' @ replicate 1200 CHR ''['')
     = Some (''beacon-fakts'' @ replicate 1200 CHR ''['')
   \<and> startswith (''beacon-fakts'' @ replicate 1200 CHR ''['')
        (ListenBinding.magic_phrase ListenBinding_default)
   \<and> json_loads example_lib (replicate 1200 CHR ''['') = Inl RecursionError
   \<and> alisten example_lib ListenBinding_default False Started
        [Datagram (''beacon-fakts'' @ replicate 1200 CHR ''[''),
         Datagram ''beacon-fakts{"url": "u1"}''] =
       Effect TransportClose (Effect SocketClose
         (Effect (LogInfo ''Stopped checking'') (Raise RecursionError)))\<close>
proof -
  let ?d = "''beacon-fakts'' @ replicate 1200 CHR ''[''"
  let ?s = "replicate 1200 CHR ''[''"
  have h1: "str_utf8 example_lib ?d = Some ?d"
    by (simp add: example_lib_def ascii_text_def list_all_iff)
  have h2: "startswith ?d (ListenBinding.magic_phrase ListenBinding_default)"
    by (simp add: startswith_def ListenBinding_default_def)
  have ne1: "?s \<noteq> ''{}''" and ne2: "?s \<noteq> ''[]''"
    by (auto dest: arg_cong [where f = length])
  have ne3: \<open>replicate 9 CHR ''['' \<noteq> ''{"url": "''\<close>
    by code_simp
  have h3': "json_loads example_lib ?s = Inl RecursionError"
    by (simp add: example_lib_def loads_fragment_def ne1 ne2 ne3)
  have h3: "json_loads example_lib
      (drop (length (ListenBinding.magic_phrase ListenBinding_default)) ?d) = Inl RecursionError"
    using h3' by (simp add: ListenBinding_default_def)
  have none: "alisten example_lib ListenBinding_default False Started [] = Await"
    by code_simp
  have run: \<open>alisten example_lib ListenBinding_default False Started
      [Datagram ?d, Datagram ''beacon-fakts{"url": "u1"}''] =
      Effect TransportClose (Effect SocketClose
        (Effect (LogInfo ''Stopped checking'') (Raise RecursionError)))\<close>
    using alisten_json_loads_error [OF h1 h2 h3, of False "[]"
        \<open>[Datagram ''beacon-fakts{"url": "u1"}'']\<close>]
    by (simp add: none perform_def)
  from h1 h2 h3' run show ?thesis
    by (intro conjI)
qed

text \<open>
  C8. A datagram that decodes as UTF-8 and does not start with the magic phrase: the
  listener logs "Received Non Magic Response ..." and goes on with the datagrams that
  follow, with \<open>strict\<close> and without; no exception is raised for it.
\<close>

theorem alisten_non_magic:
  assumes "str_utf8 L d = Some data"
      and "\<not> startswith data (ListenBinding.magic_phrase binding)"
  shows "alisten L binding strict' Started (pre @ Datagram d # rest) =
           resume (alisten L binding strict' Started pre)
             (Effect (LogError (''Received Non Magic Response '' @ data @ ''. Maybe somebody sends''))
                (alisten L binding strict' Started rest))"
proof -
  have "alisten_loop L binding strict' (Datagram d # rest) =
      Effect (LogError (''Received Non Magic Response '' @ data @ ''. Maybe somebody sends''))
        (alisten_loop L binding strict' rest)"
    using on_datagram_non_magic [OF assms, of strict'] by (simp add: perform_def)
  then show ?thesis
    by (simp only: alisten_Started_append) (simp add: alisten_def)
qed

text \<open>The datagram \<^verbatim>\<open>hello\<close> before a beacon, in strict mode: a log line, then the beacon.\<close>

theorem alisten_non_magic_witness:
  \<open>str_utf8 example_lib ''hello'' = Some ''hello''
   \<and> \<not> startswith ''hello'' (ListenBinding.magic_phrase ListenBinding_default)
   \<and> alisten example_lib ListenBinding_default True Started
        [Datagram ''hello'', Datagram ''beacon-fakts{"url": "u1"}''] =
       Effect (LogError ''Received Non Magic Response hello. Maybe somebody sends'')
         (Yield \<lparr>url = ''u1''\<rparr> Await)\<close>
proof -
  have h1: "str_utf8 example_lib ''hello'' = Some ''hello''"
    by code_simp
  have h2: "\<not> startswith ''hello'' (ListenBinding.magic_phrase ListenBinding_default)"
    by code_simp
  have rest: \<open>alisten example_lib ListenBinding_default True Started
      [Datagram ''beacon-fakts{"url": "u1"}''] = Yield \<lparr>url = ''u1''\<rparr> Await\<close>
    by code_simp
  have none: "alisten example_lib ListenBinding_default True Started [] = Await"
    by code_simp
  show ?thesis
    using alisten_non_magic [OF h1 h2, of True "[]" \<open>[Datagram ''beacon-fakts{"url": "u1"}'']\<close>]
    by (simp add: h1 h2 rest none)
qed

text \<open>
  C5. A datagram whose bytes are not valid UTF-8: \<^verbatim>\<open>str(data, "utf8")\<close> raises
  \<^verbatim>\<open>UnicodeDecodeError\<close>, and the clause written to catch it names \<^verbatim>\<open>UnicodeEncodeError\<close>.
  So with \<open>strict\<close> and without, the listener writes no "Couldn't decode" line, runs its
  \<^verbatim>\<open>finally\<close> clause and raises \<^verbatim>\<open>UnicodeDecodeError\<close>: the datagrams that follow are never
  read. Without \<open>strict\<close> this is not the skip that the claim describes.
\<close>

theorem alisten_undecodable:
  assumes "str_utf8 L d = None"
  shows "alisten L binding strict' Started (pre @ Datagram d # rest) =
           resume (alisten L binding strict' Started pre)
             (perform [TransportClose, SocketClose, LogInfo ''Stopped checking'']
                (Raise UnicodeDecodeError))"
proof -
  have "alisten_loop L binding strict' (Datagram d # rest) =
      perform [TransportClose, SocketClose, LogInfo ''Stopped checking''] (Raise UnicodeDecodeError)"
    using on_datagram_undecodable [OF assms, of binding strict']
    by (simp add: leave_try_error) (simp add: perform_def)
  then show ?thesis
    by (simp only: alisten_Started_append)
qed

text \<open>The byte \<open>0xFF\<close> before a beacon, without \<open>strict\<close>: the beacon is never yielded.\<close>

theorem alisten_undecodable_witness:
  \<open>str_utf8 example_lib [CHR 0xFF] = None
   \<and> alisten example_lib ListenBinding_default False Started
        [Datagram [CHR 0xFF], Datagram ''beacon-fakts{"url": "u1"}''] =
       Effect TransportClose (Effect SocketClose
         (Effect (LogInfo ''Stopped checking'') (Raise UnicodeDecodeError)))\<close>
proof -
  have h1: "str_utf8 example_lib [CHR 0xFF] = None"
    by code_simp
  have none: "alisten example_lib ListenBinding_default False Started [] = Await"
    by code_simp
  show ?thesis
    using alisten_undecodable [OF h1, of ListenBinding_default False "[]"
        \<open>[Datagram ''beacon-fakts{"url": "u1"}'']\<close>]
    by (simp add: h1 none perform_def)
qed

text \<open>
  C7. A datagram that starts with the magic phrase and whose remainder is JSON from which
  \<^verbatim>\<open>Beacon(**endpoint)\<close> raises (\<^verbatim>\<open>TypeError\<close> for a value that is not an object,
  \<^verbatim>\<open>ValidationError\<close> for an object without a usable \<^verbatim>\<open>url\<close>): the inner \<^verbatim>\<open>try\<close> catches
  \<^verbatim>\<open>json.JSONDecodeError\<close> only, so with \<open>strict\<close> and without, the listener runs its
  \<^verbatim>\<open>finally\<close> clause and raises that exception, and the datagrams that follow are never
  read. Without \<open>strict\<close> the datagram is not dropped, as the claim says it is.
\<close>

theorem alisten_bad_shape:
  assumes "str_utf8 L d = Some data"
      and "startswith data (ListenBinding.magic_phrase binding)"
      and "json_loads L (drop (length (ListenBinding.magic_phrase binding)) data) = Inr j"
      and "Beacon_init (str_num L) j = Inl e"
  shows "alisten L binding strict' Started (pre @ Datagram d # rest) =
           resume (alisten L binding strict' Started pre)
             (perform [TransportClose, SocketClose, LogInfo ''Stopped checking''] (Raise e))"
proof -
  have "e \<noteq> CancelledError"
    using Beacon_init_error [OF assms(4)] by auto
  then have "alisten_loop L binding strict' (Datagram d # rest) =
      perform [TransportClose, SocketClose, LogInfo ''Stopped checking''] (Raise e)"
    using on_datagram_bad_shape [OF assms, of strict']
    by (simp add: leave_try_error) (simp add: perform_def)
  then show ?thesis
    by (simp only: alisten_Started_append)
qed

text \<open>
  Without \<open>strict\<close>: the datagram \<^verbatim>\<open>beacon-fakts{}\<close> (an object without \<^verbatim>\<open>url\<close>) ends the
  listener with \<^verbatim>\<open>ValidationError\<close>, the datagram \<^verbatim>\<open>beacon-fakts[]\<close> (not an object) with
  \<^verbatim>\<open>TypeError\<close>; the beacon that follows is never yielded.
\<close>

theorem alisten_bad_shape_witness:
  \<open>str_utf8 example_lib ''beacon-fakts{}'' = Some ''beacon-fakts{}''
   \<and> startswith ''beacon-fakts{}'' (ListenBinding.magic_phrase ListenBinding_default)
   \<and> json_loads example_lib ''{}'' = Inr (JDict [])
   \<and> Beacon_init (str_num example_lib) (JDict []) = Inl ValidationError
   \<and> alisten example_lib ListenBinding_default False Started
        [Datagram ''beacon-fakts{}'', Datagram ''beacon-fakts{"url": "u1"}''] =
       Effect TransportClose (Effect SocketClose
         (Effect (LogInfo ''Stopped checking'') (Raise ValidationError)))
   \<and> json_loads example_lib ''[]'' = Inr (JList [])
   \<and> Beacon_init (str_num example_lib) (JList []) = Inl TypeError
   \<and> alisten example_lib ListenBinding_default False Started
        [Datagram ''beacon-fakts[]'', Datagram ''beacon-fakts{"url": "u1"}''] =
       Effect TransportClose (Effect SocketClose
         (Effect (LogInfo ''Stopped checking'') (Raise TypeError)))\<close>
proof -
  have a1: "str_utf8 example_lib ''beacon-fakts{}'' = Some ''beacon-fakts{}''"
    by code_simp
  have a2: "startswith ''beacon-fakts{}'' (ListenBinding.magic_phrase ListenBinding_default)"
    by code_simp
  have a3: "json_loads example_lib
      (drop (length (ListenBinding.magic_phrase ListenBinding_default)) ''beacon-fakts{}'')
      = Inr (JDict [])"
    by code_simp
  have a4: "Beacon_init (str_num example_lib) (JDict []) = Inl ValidationError"
    by simp
  have b1: "str_utf8 example_lib ''beacon-fakts[]'' = Some ''beacon-fakts[]''"
    by code_simp
  have b2: "startswith ''beacon-fakts[]'' (ListenBinding.magic_phrase ListenBinding_default)"
    by code_simp
  have b3: "json_loads example_lib
      (drop (length (ListenBinding.magic_phrase ListenBinding_default)) ''beacon-fakts[]'')
      = Inr (JList [])"
    by code_simp
  have b4: "Beacon_init (str_num example_lib) (JList []) = Inl TypeError"
    by simp
  have c1: "json_loads example_lib ''{}'' = Inr (JDict [])"
    by code_simp
  have c2: "json_loads example_lib ''[]'' = Inr (JList [])"
    by code_simp
  have none: "alisten example_lib ListenBinding_default False Started [] = Await"
    by code_simp
  show ?thesis
    using alisten_bad_shape [OF a1 a2 a3 a4, of False "[]"
        \<open>[Datagram ''beacon-fakts{"url": "u1"}'']\<close>]
      alisten_bad_shape [OF b1 b2 b3 b4, of False "[]"
        \<open>[Datagram ''beacon-fakts{"url": "u1"}'']\<close>]
    by (simp add: a1 a2 a4 b4 c1 c2 none perform_def)
qed

text \<open>
  C2. The task is cancelled while the listener waits in \<^verbatim>\<open>read_queue.get()\<close>: the clause
  \<^verbatim>\<open>except asyncio.CancelledError\<close> closes the transport and the socket and raises the
  cancellation again, and the \<^verbatim>\<open>finally\<close> clause then closes both once more. Each
  \<^verbatim>\<open>close()\<close> is called twice on this path, not once as the claim says.
\<close>

theorem alisten_cancelled:
  "alisten L binding strict' Started (pre @ Cancel # rest) =
     resume (alisten L binding strict' Started pre)
       (perform [TransportClose, SocketClose, LogInfo ''Stopped checking'',
                 TransportClose, SocketClose, LogInfo ''Stopped checking'']
          (Raise CancelledError))
   \<and> count_list (effects (alisten L binding strict' Started (Cancel # rest))) SocketClose = 2
   \<and> count_list (effects (alisten L binding strict' Started (Cancel # rest))) TransportClose = 2"
  by (simp only: alisten_Started_append alisten_loop.simps leave_try_cancelled)
    (simp add: alisten_def leave_try_cancelled perform_def)

text \<open>A beacon is yielded, then the cancellation arrives in the next receive.\<close>

theorem alisten_cancelled_witness:
  \<open>alisten example_lib ListenBinding_default False Started
     [Datagram ''beacon-fakts{"url": "u1"}'', Cancel] =
   Yield \<lparr>url = ''u1''\<rparr>
     (Effect TransportClose (Effect SocketClose (Effect (LogInfo ''Stopped checking'')
        (Effect TransportClose (Effect SocketClose (Effect (LogInfo ''Stopped checking'')
           (Raise CancelledError)))))))\<close>
proof -
  have pre: \<open>alisten example_lib ListenBinding_default False Started
      [Datagram ''beacon-fakts{"url": "u1"}''] = Yield \<lparr>url = ''u1''\<rparr> Await\<close>
    by code_simp
  show ?thesis
    using alisten_cancelled [of example_lib ListenBinding_default False
        \<open>[Datagram ''beacon-fakts{"url": "u1"}'']\<close> "[]"]
    by (simp add: pre perform_def)
qed

text \<open>
  The other ways out of the listener: an exception that is not the cancellation meets
  the \<^verbatim>\<open>finally\<close> clause alone (one close of each, as the theorems above show); a
  failure of \<^verbatim>\<open>create_datagram_endpoint\<close>, its cancellation included, leaves \<^verbatim>\<open>transport\<close>
  unassigned, so that the first \<^verbatim>\<open>transport.close()\<close> raises and the socket is not closed.
\<close>

lemma alisten_startup_failure:
  "alisten L binding strict' (EndpointFails e) ds = Raise UnboundLocalError"
  by (simp add: alisten_def leave_try_unbound)


subsection \<open>The deduplicating listener\<close>

lemma yields_alisten_pure_loop:
  "yields (alisten_pure_loop seen g) =
     map (\<lambda>i. yields g ! i)
       (filter (\<lambda>i. url (yields g ! i) \<notin> seen \<union> url ` set (take i (yields g)))
          [0..<length (yields g)])"
proof (induction g arbitrary: seen)
  case (Yield x g)
  have upt: "[0..<Suc (length (yields g))] = 0 # map Suc [0..<length (yields g)]"
    by (simp add: upt_conv_Cons map_Suc_upt del: upt_Suc)
  show ?case
  proof (cases "url x \<in> seen")
    case True
    then have "a \<notin> seen \<Longrightarrow> (a = url x) = False" for a by auto
    with True Yield.IH [of seen] show ?thesis
      by (simp add: upt filter_map comp_def del: upt_Suc cong: conj_cong)
  next
    case False
    with Yield.IH [of "insert (url x) seen"] show ?thesis
      by (simp add: upt filter_map comp_def conj_ac del: upt_Suc)
  qed
qed simp_all

lemma effects_alisten_pure_loop: "effects (alisten_pure_loop seen g) = effects g"
  by (induction g arbitrary: seen) simp_all

lemma ending_alisten_pure_loop: "ending (alisten_pure_loop seen g) = ending g"
  by (induction g arbitrary: seen) simp_all

lemma concat_map_if: "concat (map (\<lambda>i. if P i then [f i] else []) xs) = map f (filter P xs)"
  by (induction xs) simp_all

text \<open>
  C4. Whatever the listener yields, \<open>alisten_pure\<close> yields exactly the beacons at the
  positions whose URL occurs at no earlier position, in the order of arrival; it starts
  every session from the empty set, so a session yields what its own input determines.
  It passes on the effects and the end of the listener unchanged.
\<close>

theorem alisten_pure_first_occurrences:
  "yields (alisten_pure_over g) =
     [yields g ! i. i \<leftarrow> [0..<length (yields g)],
        url (yields g ! i) \<notin> url ` set (take i (yields g))]
   \<and> effects (alisten_pure_over g) = effects g
   \<and> ending (alisten_pure_over g) = ending g
   \<and> alisten_pure L binding strict' st ds = alisten_pure_over (alisten L binding strict' st ds)"
  by (simp add: alisten_pure_over_def alisten_pure_def yields_alisten_pure_loop concat_map_if
      effects_alisten_pure_loop ending_alisten_pure_loop)

text \<open>
  The URLs \<^verbatim>\<open>u1, u2, u1, u3\<close> give \<^verbatim>\<open>u1, u2, u3\<close>, from a run given as such and from the
  listener on four datagrams; a second session on \<^verbatim>\<open>u1\<close> yields \<^verbatim>\<open>u1\<close> again.
\<close>

theorem alisten_pure_first_occurrences_witness:
  \<open>yields (alisten_pure_over
       (Yield \<lparr>url = ''u1''\<rparr> (Yield \<lparr>url = ''u2''\<rparr>
          (Yield \<lparr>url = ''u1''\<rparr> (Yield \<lparr>url = ''u3''\<rparr> Stop))))) =
     [\<lparr>url = ''u1''\<rparr>, \<lparr>url = ''u2''\<rparr>, \<lparr>url = ''u3''\<rparr>]
   \<and> alisten_pure example_lib ListenBinding_default False Started
        [Datagram ''beacon-fakts{"url": "u1"}'', Datagram ''beacon-fakts{"url": "u2"}'',
         Datagram ''beacon-fakts{"url": "u1"}'', Datagram ''beacon-fakts{"url": "u3"}''] =
       Yield \<lparr>url = ''u1''\<rparr> (Yield \<lparr>url = ''u2''\<rparr> (Yield \<lparr>url = ''u3''\<rparr> Await))
   \<and> yields (alisten_pure_over (Yield \<lparr>url = ''u1''\<rparr> Stop)) = [\<lparr>url = ''u1''\<rparr>]\<close>
proof -
  let ?g = \<open>Yield \<lparr>url = ''u1''\<rparr> (Yield \<lparr>url = ''u2''\<rparr>
      (Yield \<lparr>url = ''u1''\<rparr> (Yield \<lparr>url = ''u3''\<rparr> Stop)))\<close>
  have first: \<open>[yields ?g ! i. i \<leftarrow> [0..<length (yields ?g)],
        url (yields ?g ! i) \<notin> url ` set (take i (yields ?g))] =
      [\<lparr>url = ''u1''\<rparr>, \<lparr>url = ''u2''\<rparr>, \<lparr>url = ''u3''\<rparr>]\<close>
    by code_simp
  have second: \<open>alisten_pure_over
      (alisten example_lib ListenBinding_default False Started
        [Datagram ''beacon-fakts{"url": "u1"}'', Datagram ''beacon-fakts{"url": "u2"}'',
         Datagram ''beacon-fakts{"url": "u1"}'', Datagram ''beacon-fakts{"url": "u3"}'']) =
      Yield \<lparr>url = ''u1''\<rparr> (Yield \<lparr>url = ''u2''\<rparr> (Yield \<lparr>url = ''u3''\<rparr> Await))\<close>
    by code_simp
  have third: \<open>[yields (Yield \<lparr>url = ''u1''\<rparr> Stop) ! i.
        i \<leftarrow> [0..<length (yields (Yield \<lparr>url = ''u1''\<rparr> (Stop :: Beacon agen)))],
        url (yields (Yield \<lparr>url = ''u1''\<rparr> Stop) ! i)
          \<notin> url ` set (take i (yields (Yield \<lparr>url = ''u1''\<rparr> Stop)))] =
      [\<lparr>url = ''u1''\<rparr>]\<close>
    by code_simp
  show ?thesis
    using alisten_pure_first_occurrences [of ?g example_lib ListenBinding_default False Started
        \<open>[Datagram ''beacon-fakts{"url": "u1"}'', Datagram ''beacon-fakts{"url": "u2"}'',
          Datagram ''beacon-fakts{"url": "u1"}'', Datagram ''beacon-fakts{"url": "u3"}'']\<close>]
      alisten_pure_first_occurrences [of \<open>Yield \<lparr>url = ''u1''\<rparr> Stop\<close>
        example_lib ListenBinding_default False Started "[]"]
    by (simp add: first second third)
qed

subsection \<open>Discovery\<close>

lemma adiscover_loop_first:
  assumes "yields g = pre @ b # post"
      and "\<forall>x\<in>set pre. is_Refused (probe (url x))"
      and "probe (url b) = Resolved ep"
  shows "snd (adiscover_loop probe g) = Returned ep
       \<and> own (fst (adiscover_loop probe g)) =
           concat (map (\<lambda>x. [DiscoverUrl (url x),
               LogFailure (''Could not connect to beacon '' @ url x @ '': ''
                 @ reason (probe (url x)))]) pre)
           @ [DiscoverUrl (url b)]"
  using assms
proof (induction g arbitrary: pre)
  case (Yield x g)
  show ?case
  proof (cases pre)
    case Nil
    with Yield.prems show ?thesis by (simp add: own_def)
  next
    case (Cons y pre')
    with Yield.prems have xy: "x = y" and g: "yields g = pre' @ b # post"
      and r: "is_Refused (probe (url x))" and rs: "\<forall>x\<in>set pre'. is_Refused (probe (url x))"
      by simp_all
    from r obtain m where m: "probe (url x) = Refused m"
      by (cases "probe (url x)") simp_all
    from Yield.IH [OF g rs Yield.prems(3)] m Cons xy show ?thesis
      by (simp add: own_def case_prod_beta)
  qed
next
  case (Effect e g)
  from Effect.IH [OF _ Effect.prems(2,3)] Effect.prems(1) show ?case
    by (simp add: own_def case_prod_beta)
qed simp_all

lemma adiscover_loop_all_refused:
  assumes "\<forall>x\<in>set (yields g). is_Refused (probe (url x))"
  shows "snd (adiscover_loop probe g) =
           (case ending g of
              Raises e \<Rightarrow> Raised e
            | Stops \<Rightarrow> Raised (DiscoveryError ''Could not find any endpoint'')
            | Awaits \<Rightarrow> Pending)"
  using assms
proof (induction g)
  case (Yield x g)
  then obtain m where m: "probe (url x) = Refused m"
    by (cases "probe (url x)") simp_all
  with Yield show ?case by (simp add: case_prod_beta)
next
  case (Effect e g)
  then show ?case by (simp add: case_prod_beta)
qed simp_all

text \<open>
  C1. Let the beacons that reach \<open>adiscover\<close> be \<open>pre\<close>, then \<open>b\<close>, then \<open>post\<close>, where the
  probe of every beacon of \<open>pre\<close> raises an exception and the probe of \<open>b\<close> returns the
  endpoint \<open>ep\<close>. Then \<open>adiscover\<close> returns \<open>ep\<close>, and what it does itself is, in this
  order: for each beacon of \<open>pre\<close>, in arrival order, one call of the probe and one log
  line "Could not connect to beacon ..."; then one call of the probe for \<open>b\<close>. No beacon
  of \<open>post\<close> is probed.
\<close>

theorem adiscover_first_success:
  assumes "yields (alisten_pure L (adiscover_binding self) (strict self) st ds) = pre @ b # post"
      and "\<forall>x\<in>set pre. is_Refused (discover_url (url x) (ssl_context self))"
      and "discover_url (url b) (ssl_context self) = Resolved ep"
  shows "snd (adiscover L discover_url self request st ds) = Returned ep
       \<and> own (fst (adiscover L discover_url self request st ds)) =
           concat (map (\<lambda>x. [DiscoverUrl (url x),
               LogFailure (''Could not connect to beacon '' @ url x @ '': ''
                 @ reason (discover_url (url x) (ssl_context self)))]) pre)
           @ [DiscoverUrl (url b)]"
  unfolding adiscover_def
  by (rule adiscover_loop_first [where probe = "\<lambda>u. discover_url u (ssl_context self)",
        OF assms])

text \<open>
  Beacons \<^verbatim>\<open>u1\<close> (the probe times out), \<^verbatim>\<open>u2\<close> (the probe answers), \<^verbatim>\<open>u3\<close>: the endpoint
  of \<^verbatim>\<open>u2\<close> is returned after two calls of the probe.
\<close>

theorem adiscover_first_success_witness:
  \<open>yields (alisten_pure example_lib (adiscover_binding (FirstAdvertisedDiscovery_default ()))
       (strict (FirstAdvertisedDiscovery_default ())) Started
       [Datagram ''beacon-fakts{"url": "u1"}'', Datagram ''beacon-fakts{"url": "u2"}'',
        Datagram ''beacon-fakts{"url": "u3"}'']) =
     [\<lparr>url = ''u1''\<rparr>] @ \<lparr>url = ''u2''\<rparr> # [\<lparr>url = ''u3''\<rparr>]
   \<and> is_Refused (example_probe ''u1'' ())
   \<and> example_probe ''u2'' () = Resolved example_endpoint
   \<and> adiscover example_lib example_probe (FirstAdvertisedDiscovery_default ()) () Started
       [Datagram ''beacon-fakts{"url": "u1"}'', Datagram ''beacon-fakts{"url": "u2"}'',
        Datagram ''beacon-fakts{"url": "u3"}''] =
     ([DiscoverUrl ''u1'', LogFailure ''Could not connect to beacon u1: timed out'',
       DiscoverUrl ''u2''], Returned example_endpoint)\<close>
proof -
  let ?self = "FirstAdvertisedDiscovery_default ()"
  let ?ds = \<open>[Datagram ''beacon-fakts{"url": "u1"}'', Datagram ''beacon-fakts{"url": "u2"}'',
      Datagram ''beacon-fakts{"url": "u3"}'']\<close>
  have h1: "yields (alisten_pure example_lib (adiscover_binding ?self) (strict ?self) Started ?ds)
      = [\<lparr>url = ''u1''\<rparr>] @ \<lparr>url = ''u2''\<rparr> # [\<lparr>url = ''u3''\<rparr>]"
    by code_simp
  have h2: "\<forall>x\<in>set [\<lparr>url = ''u1''\<rparr>]. is_Refused (example_probe (url x) (ssl_context ?self))"
    by (simp add: example_probe_def)
  have h3: "example_probe (url \<lparr>url = ''u2''\<rparr>) (ssl_context ?self) = Resolved example_endpoint"
    by (simp add: example_probe_def)
  have run: "adiscover example_lib example_probe ?self () Started ?ds =
      ([DiscoverUrl ''u1'', LogFailure ''Could not connect to beacon u1: timed out'',
        DiscoverUrl ''u2''], Returned example_endpoint)"
    by code_simp
  show ?thesis
    using adiscover_first_success [where L = example_lib and discover_url = example_probe
        and self = ?self and st = Started and ds = ?ds and pre = "[\<lparr>url = ''u1''\<rparr>]"
        and b = "\<lparr>url = ''u2''\<rparr>" and post = "[\<lparr>url = ''u3''\<rparr>]"
        and ep = example_endpoint and request = "()", OF h1 h2 h3] h1
    by (simp add: run example_probe_def)
qed

text \<open>
  The beacon sequence of the listener never ends: the loop is \<^verbatim>\<open>while True\<close> without a
  \<^verbatim>\<open>break\<close>, so the listener raises or stays suspended, and \<open>alisten_pure\<close> ends as the
  listener does.
\<close>

lemma ending_leave_try: "ending (leave_try bound e) \<noteq> Stops"
  by (simp add: leave_try_def finally_clause_def ending_perform)

lemma ending_alisten_loop: "ending (alisten_loop L binding strict' ds) \<noteq> Stops"
proof (induction ds)
  case Nil
  show ?case by simp
next
  case (Cons x ds)
  show ?case
  proof (cases x)
    case Cancel
    then show ?thesis by (simp add: ending_leave_try)
  next
    case (Datagram d)
    obtain logs r where od: "on_datagram L binding strict' d = (logs, r)"
      by (cases "on_datagram L binding strict' d")
    show ?thesis
    proof (cases r)
      case (Inl e)
      with od Datagram show ?thesis by (simp add: ending_perform ending_leave_try)
    next
      case (Inr ob)
      with od Datagram Cons.IH show ?thesis
        by (cases ob) (simp_all add: ending_perform)
    qed
  qed
qed

lemma ending_alisten: "ending (alisten L binding strict' st ds) \<noteq> Stops"
  by (cases st) (simp_all add: alisten_def ending_leave_try ending_alisten_loop)

text \<open>
  C6. When no probe succeeds (every probe made raises an exception), the outcome of
  \<open>adiscover\<close> follows the end of the listener: the \<^verbatim>\<open>try\<close> of \<open>adiscover\<close> encloses the
  probe only, so an exception of the listener, the \<^verbatim>\<open>JSONDecodeError\<close> of strict mode for
  one, leaves \<open>adiscover\<close> as it is; line 243, \<^verbatim>\<open>raise DiscoveryError(...)\<close>, is reached only
  when the beacon sequence ends, and the listener never ends. So \<open>adiscover\<close> raises the
  listener's exception or does not return, and it does not raise the \<^verbatim>\<open>DiscoveryError\<close>
  that the claim, and the contract of \<^verbatim>\<open>Discovery.adiscover\<close>, ask for.
\<close>

theorem adiscover_listener_error:
  assumes "\<forall>x\<in>set (yields (alisten_pure L (adiscover_binding self) (strict self) st ds)).
             is_Refused (discover_url (url x) (ssl_context self))"
  shows "snd (adiscover L discover_url self request st ds) =
           (case ending (alisten L (adiscover_binding self) (strict self) st ds) of
              Raises e \<Rightarrow> Raised e
            | Stops \<Rightarrow> Raised (DiscoveryError ''Could not find any endpoint'')
            | Awaits \<Rightarrow> Pending)
       \<and> ending (alisten L (adiscover_binding self) (strict self) st ds) \<noteq> Stops"
proof -
  have "ending (alisten_pure L (adiscover_binding self) (strict self) st ds) =
      ending (alisten L (adiscover_binding self) (strict self) st ds)"
    by (simp add: alisten_pure_def alisten_pure_over_def ending_alisten_pure_loop)
  with adiscover_loop_all_refused [where probe = "\<lambda>u. discover_url u (ssl_context self)",
      OF assms]
  show ?thesis
    by (simp add: adiscover_def ending_alisten)
qed

text \<open>
  The strict listener: after the beacon \<^verbatim>\<open>u1\<close>, whose probe times out, the datagram
  \<^verbatim>\<open>beacon-fakts{oops\<close> ends the beacon sequence with \<^verbatim>\<open>JSONDecodeError\<close>, and \<open>adiscover\<close>
  raises \<^verbatim>\<open>JSONDecodeError\<close>, not a \<^verbatim>\<open>DiscoveryError\<close>.
\<close>

theorem adiscover_listener_error_witness:
  \<open>yields (alisten_pure example_lib
       (adiscover_binding ((FirstAdvertisedDiscovery_default ())\<lparr>strict := True\<rparr>)) True Started
       [Datagram ''beacon-fakts{"url": "u1"}'', Datagram ''beacon-fakts{oops'']) =
     [\<lparr>url = ''u1''\<rparr>]
   \<and> is_Refused (refusing_probe ''u1'' ())
   \<and> ending (alisten example_lib
       (adiscover_binding ((FirstAdvertisedDiscovery_default ())\<lparr>strict := True\<rparr>)) True Started
       [Datagram ''beacon-fakts{"url": "u1"}'', Datagram ''beacon-fakts{oops'']) =
     Raises JSONDecodeError
   \<and> adiscover example_lib refusing_probe ((FirstAdvertisedDiscovery_default ())\<lparr>strict := True\<rparr>)
       () Started [Datagram ''beacon-fakts{"url": "u1"}'', Datagram ''beacon-fakts{oops''] =
     ([DiscoverUrl ''u1'', LogFailure ''Could not connect to beacon u1: timed out'',
       Listener (LogError ''Received Request but it was not valid json''),
       Listener TransportClose, Listener SocketClose, Listener (LogInfo ''Stopped checking'')],
      Raised JSONDecodeError)
   \<and> (\<forall>m. snd (adiscover example_lib refusing_probe
         ((FirstAdvertisedDiscovery_default ())\<lparr>strict := True\<rparr>) () Started
         [Datagram ''beacon-fakts{"url": "u1"}'', Datagram ''beacon-fakts{oops''])
       \<noteq> Raised (DiscoveryError m))\<close>
proof -
  let ?self = "(FirstAdvertisedDiscovery_default ())\<lparr>strict := True\<rparr>"
  let ?ds = \<open>[Datagram ''beacon-fakts{"url": "u1"}'', Datagram ''beacon-fakts{oops'']\<close>
  have st: "strict ?self = True"
    by simp
  have ys: "yields (alisten_pure example_lib (adiscover_binding ?self) True Started ?ds) =
      [\<lparr>url = ''u1''\<rparr>]"
    by code_simp
  have h: "\<forall>x\<in>set (yields (alisten_pure example_lib (adiscover_binding ?self) (strict ?self)
      Started ?ds)). is_Refused (refusing_probe (url x) (ssl_context ?self))"
    by (simp add: refusing_probe_def)
  have up: "ending (alisten example_lib (adiscover_binding ?self) True Started ?ds) =
      Raises JSONDecodeError"
    by code_simp
  have tr: "fst (adiscover example_lib refusing_probe ?self () Started ?ds) =
     [DiscoverUrl ''u1'', LogFailure ''Could not connect to beacon u1: timed out'',
      Listener (LogError ''Received Request but it was not valid json''),
      Listener TransportClose, Listener SocketClose, Listener (LogInfo ''Stopped checking'')]"
    by code_simp
  have "snd (adiscover example_lib refusing_probe ?self () Started ?ds) = Raised JSONDecodeError"
    using adiscover_listener_error [where L = example_lib and discover_url = refusing_probe
        and self = ?self and st = Started and ds = ?ds and request = "()", OF h]
    by (simp only: st up) simp
  with tr ys up show ?thesis
    by (simp add: prod_eq_iff refusing_probe_def)
qed

text \<open>
  C10. \<open>adiscover\<close> does not read its request: with the same configuration, probe and
  stimuli, two requests give the same trace and the same outcome.
\<close>

theorem adiscover_ignores_request:
  "adiscover L discover_url self r1 st ds = adiscover L discover_url self r2 st ds"
  by (simp add: adiscover_def)

subsection \<open>Configuration\<close>

text \<open>
  C9. The default listen binding is port 45678, magic phrase "beacon-fakts" and the empty
  bind address (all interfaces), both for a \<open>ListenBinding\<close> built without arguments and
  for the binding that \<open>adiscover\<close> builds from the default configuration.
\<close>

theorem default_binding:
  "ListenBinding_default = \<lparr>address = '''', port = 45678, magic_phrase = ''beacon-fakts''\<rparr>
   \<and> adiscover_binding (FirstAdvertisedDiscovery_default ctx) = ListenBinding_default"
  by (simp add: ListenBinding_default_def adiscover_binding_def FirstAdvertisedDiscovery_default_def)

end
